theory Spec2Isabelle
  imports Complex_Main "HOL-Library.AList"
begin

section \<open>Python values\<close>

text \<open>
  The server of \<^verbatim>\<open>discord/ext/ipc/server.py\<close> works on values decoded from JSON
  (\<^verbatim>\<open>message.json()\<close>) and on whatever a route returns. Both are Python objects.
  A dictionary is an association list in insertion order; its keys are a separate type,
  since only hashable objects can be keys. \<open>PObj T b\<close> is an object of a class named
  \<open>T\<close> that is none of the built-in JSON types (what a route returns when it hands
  back a library object), with the truth value \<open>b\<close> its class gives it: an empty
  \<^verbatim>\<open>set()\<close> is falsy. \<open>KObj T\<close> is such an object used as a key (a tuple, say).
  Floats are idealised as rationals.
\<close>

datatype pykey = KStr string | KInt int | KFloat rat | KBool bool | KNone | KObj string

datatype pyval =
    PNone
  | PBool bool
  | PInt int
  | PFloat rat
  | PStr string
  | PList "pyval list"
  | PDict "(pykey \<times> pyval) list"
  | PObj string bool

datatype py_exn =
    AttributeError
  | KeyError
  | TypeError string
  | JSONDecodeError
  | JSONEncodeError string
  | BaseException string
  | OSError string

text \<open>Truth value testing, as \<^verbatim>\<open>not x\<close> and \<^verbatim>\<open>if x:\<close> apply it.\<close>

fun py_truthy :: "pyval \<Rightarrow> bool" where
  "py_truthy PNone = False"
| "py_truthy (PBool b) = b"
| "py_truthy (PInt i) = (i \<noteq> 0)"
| "py_truthy (PFloat r) = (r \<noteq> 0)"
| "py_truthy (PStr s) = (s \<noteq> [])"
| "py_truthy (PList xs) = (xs \<noteq> [])"
| "py_truthy (PDict kvs) = (kvs \<noteq> [])"
| "py_truthy (PObj T b) = b"

text \<open>\<^verbatim>\<open>d.get(k)\<close> on a dictionary: \<^verbatim>\<open>None\<close> when the key is absent.\<close>

definition dict_get :: "(pykey \<times> pyval) list \<Rightarrow> string \<Rightarrow> pyval" where
  "dict_get kvs k = (case map_of kvs (KStr k) of None \<Rightarrow> PNone | Some v \<Rightarrow> v)"

text \<open>\<^verbatim>\<open>x.get(k)\<close> on any object: only a dictionary has the method.\<close>

fun py_get :: "pyval \<Rightarrow> string \<Rightarrow> py_exn + pyval" where
  "py_get (PDict kvs) k = Inr (dict_get kvs k)"
| "py_get _ k = Inl AttributeError"

text \<open>\<^verbatim>\<open>s.startswith(p)\<close> and \<^verbatim>\<open>s.endswith(p)\<close>.\<close>

definition startswith :: "string \<Rightarrow> string \<Rightarrow> bool" where
  "startswith s p = (take (length p) s = p)"

definition endswith :: "string \<Rightarrow> string \<Rightarrow> bool" where
  "endswith s p = (length p \<le> length s \<and> drop (length s - length p) s = p)"

text \<open>The name of an object's class, and a text in single quotes, as error texts show them.\<close>

fun type_name :: "pyval \<Rightarrow> string" where
  "type_name PNone = ''NoneType''"
| "type_name (PBool b) = ''bool''"
| "type_name (PInt i) = ''int''"
| "type_name (PFloat r) = ''float''"
| "type_name (PStr s) = ''str''"
| "type_name (PList xs) = ''list''"
| "type_name (PDict kvs) = ''dict''"
| "type_name (PObj T b) = T"

fun key_type_name :: "pykey \<Rightarrow> string" where
  "key_type_name (KStr s) = ''str''"
| "key_type_name (KInt i) = ''int''"
| "key_type_name (KFloat r) = ''float''"
| "key_type_name (KBool b) = ''bool''"
| "key_type_name KNone = ''NoneType''"
| "key_type_name (KObj T) = T"

definition quoted :: "string \<Rightarrow> string" where
  "quoted s = CHR 0x27 # s @ [CHR 0x27]"

subsection \<open>The JSON encoder behind \<^verbatim>\<open>send_json\<close>\<close>

text \<open>
  \<^verbatim>\<open>websocket.send_json(response)\<close> encodes with the standard \<^verbatim>\<open>json.dumps\<close>, which
  walks the value in order and raises \<^verbatim>\<open>TypeError\<close> at the first key or value it cannot
  encode. Only the exception matters to the server, so the encoder is modelled by the
  exception it raises, if any.
\<close>

definition not_serializable :: "string \<Rightarrow> string" where
  "not_serializable T = ''Object of type '' @ T @ '' is not JSON serializable''"

definition bad_key :: "string \<Rightarrow> string" where
  "bad_key T = ''keys must be str, int, float, bool or None, not '' @ T"

fun key_error :: "pykey \<Rightarrow> py_exn option" where
  "key_error (KObj T) = Some (TypeError (bad_key T))"
| "key_error _ = None"

fun first_error :: "py_exn option list \<Rightarrow> py_exn option" where
  "first_error [] = None"
| "first_error (None # es) = first_error es"
| "first_error (Some e # es) = Some e"

fun json_dumps :: "pyval \<Rightarrow> py_exn option" where
  "json_dumps (PList xs) = first_error (map json_dumps xs)"
| "json_dumps (PDict kvs) =
     first_error (concat (map (\<lambda>(k, v). [key_error k, json_dumps v]) kvs))"
| "json_dumps (PObj T b) = Some (TypeError (not_serializable T))"
| "json_dumps _ = None"

section \<open>Routes and the server object\<close>

text \<open>
  \<^verbatim>\<open>IpcServerResponse\<close> is an object whose attributes are set from the request; it is
  modelled by its attribute table. A route is called with it, after the cog it belongs
  to when there is one.
\<close>

type_synonym view = "(pykey \<times> pyval) list"

datatype arg = ACog pyval | AReq view

text \<open>
  What awaiting a route does: it returns a value, raises an \<^verbatim>\<open>Exception\<close> whose
  \<^verbatim>\<open>str()\<close> is the given text, or raises something that is not an \<^verbatim>\<open>Exception\<close>
  (\<^verbatim>\<open>SystemExit\<close>, a cancellation), which \<^verbatim>\<open>except Exception\<close> lets through.
\<close>

datatype outcome = Returns pyval | Raises string | RaisesBase string

record route_func =
  func_name :: string
  func_qualname :: "string option"
  func_call :: "arg list \<Rightarrow> outcome"

type_synonym routes = "string \<rightharpoonup> route_func"

text \<open>
  The objects aiohttp hands out. Whether their methods raise is outside this
  repository, so each object carries the exception its method raises, if any.
\<close>

datatype application = Application string

record runner =
  runner_app :: application
  runner_setup :: "py_exn option"
  runner_cleanup :: "py_exn option"

record site =
  site_runner :: runner
  site_host :: string
  site_port :: int
  site_start :: "py_exn option"
  site_stop :: "py_exn option"

record aiohttp =
  AppRunner :: "application \<Rightarrow> runner"
  TCPSite :: "runner \<Rightarrow> string \<Rightarrow> int \<Rightarrow> site"

text \<open>
  The attributes of a \<^verbatim>\<open>Server\<close>. \<open>own_ROUTES\<close> is the instance attribute
  \<^verbatim>\<open>ROUTES\<close>, absent until \<^verbatim>\<open>update_endpoints\<close> assigns it; \<open>priv_runner\<close> and
  \<open>priv_webserver\<close> are \<^verbatim>\<open>_runner\<close> and \<^verbatim>\<open>_webserver\<close>, absent until
  \<^verbatim>\<open>setup\<close> assigns them. The class attribute \<^verbatim>\<open>Server.ROUTES\<close> is shared by all
  instances and is passed separately.
\<close>

record server =
  bot_cogs :: "string \<rightharpoonup> pyval"
  host :: string
  port :: int
  secret_key :: "string option"
  do_multicast :: bool
  multicast_port :: int
  endpoints :: routes
  own_ROUTES :: "routes option"
  priv_server :: "application option"
  priv_multicast_server :: "application option"
  priv_runner :: "runner option"
  priv_webserver :: "site option"

definition Server_init ::
  "(string \<rightharpoonup> pyval) \<Rightarrow> string \<Rightarrow> int \<Rightarrow> string option \<Rightarrow> bool \<Rightarrow> int \<Rightarrow> server" where
  "Server_init cogs h p key multicast mport =
     \<lparr>bot_cogs = cogs, host = h, port = p, secret_key = key, do_multicast = multicast,
      multicast_port = mport, endpoints = Map.empty, own_ROUTES = None,
      priv_server = None, priv_multicast_server = None,
      priv_runner = None, priv_webserver = None\<rparr>"

text \<open>The constructor with its default arguments.\<close>

definition Server_default :: "(string \<rightharpoonup> pyval) \<Rightarrow> server" where
  "Server_default cogs = Server_init cogs ''127.0.0.1'' 1010 None True 20000"

subsection \<open>Registration\<close>

text \<open>The module-level decorator: \<^verbatim>\<open>Server.ROUTES[name or func.__name__] = func\<close>.\<close>

definition route :: "string option \<Rightarrow> route_func \<Rightarrow> routes \<Rightarrow> routes" where
  "route name func ROUTES =
     (case name of
        None \<Rightarrow> ROUTES(func_name func \<mapsto> func)
      | Some n \<Rightarrow> if n = [] then ROUTES(func_name func \<mapsto> func) else ROUTES(n \<mapsto> func))"

text \<open>The decorator of an instance, which writes \<^verbatim>\<open>self.endpoints\<close>.\<close>

definition Server_route :: "string option \<Rightarrow> route_func \<Rightarrow> server \<Rightarrow> server" where
  "Server_route name func srv =
     (case name of
        None \<Rightarrow> srv\<lparr>endpoints := (endpoints srv)(func_name func \<mapsto> func)\<rparr>
      | Some n \<Rightarrow>
          if n = [] then srv\<lparr>endpoints := (endpoints srv)(func_name func \<mapsto> func)\<rparr>
          else srv\<lparr>endpoints := (endpoints srv)(n \<mapsto> func)\<rparr>)"

text \<open>
  \<^verbatim>\<open>self.ROUTES\<close> reads the instance attribute when there is one and the class
  attribute otherwise.
\<close>

definition self_ROUTES :: "routes \<Rightarrow> server \<Rightarrow> routes" where
  "self_ROUTES ROUTES srv = (case own_ROUTES srv of None \<Rightarrow> ROUTES | Some r \<Rightarrow> r)"

text \<open>
  \<^verbatim>\<open>self.endpoints = {**self.endpoints, **self.ROUTES}\<close>, in which the right operand
  wins on a shared key, then \<^verbatim>\<open>self.ROUTES = {}\<close>, which creates the instance
  attribute. The class attribute is returned as it was: nothing assigns it.
\<close>

definition update_endpoints :: "routes \<Rightarrow> server \<Rightarrow> routes \<times> server" where
  "update_endpoints ROUTES srv =
     (ROUTES, srv\<lparr>endpoints := endpoints srv ++ self_ROUTES ROUTES srv,
                   own_ROUTES := Some Map.empty\<rparr>)"

section \<open>The primary listener: \<^verbatim>\<open>handle_accept\<close>\<close>

text \<open>
  What a connection handler does that the outside can see: it raises \<^verbatim>\<open>ipc_error\<close>
  on the bot (with the request's endpoint and the text of the exception), it awaits a
  route, and it sends a response. Log lines are left out.
\<close>

datatype event =
    Ipc_error pyval string
  | Ipc_ready
  | Invoked route_func "arg list"
  | Sent pyval

text \<open>A frame of the websocket: its text decodes as JSON, or \<^verbatim>\<open>message.json()\<close> raises.\<close>

datatype ws_message = Text pyval | Undecodable

text \<open>After one message the loop goes on, or an exception leaves the coroutine.\<close>

datatype step_end = Continue | Abort py_exn

datatype conn_end = Closed_by_client | Raised py_exn

subsection \<open>The authorization test\<close>

definition secret_value :: "string option \<Rightarrow> pyval" where
  "secret_value key = (case key of None \<Rightarrow> PNone | Some s \<Rightarrow> PStr s)"

text \<open>
  \<^verbatim>\<open>not headers or headers.get("Authorization") != self.secret_key\<close>: the second
  operand is evaluated only for truthy headers, and raises when they are no dictionary.
\<close>

definition unauthorized :: "string option \<Rightarrow> pyval \<Rightarrow> py_exn + bool" where
  "unauthorized key headers =
     (if \<not> py_truthy headers then Inr True
      else case py_get headers ''Authorization'' of
             Inl e \<Rightarrow> Inl e
           | Inr v \<Rightarrow> Inr (v \<noteq> secret_value key))"

subsection \<open>Routing\<close>

text \<open>
  \<^verbatim>\<open>endpoint in self.endpoints\<close> and \<^verbatim>\<open>self.endpoints[endpoint]\<close> in one: the names
  of the table are strings, a list or a dictionary cannot be hashed, and any other
  object is no key of the table.
\<close>

fun find_endpoint :: "routes \<Rightarrow> pyval \<Rightarrow> py_exn + route_func option" where
  "find_endpoint eps (PStr s) = Inr (eps s)"
| "find_endpoint eps (PList xs) = Inl (TypeError (''unhashable type: '' @ quoted ''list''))"
| "find_endpoint eps (PDict kvs) = Inl (TypeError (''unhashable type: '' @ quoted ''dict''))"
| "find_endpoint eps _ = Inr None"

text \<open>
  \<^verbatim>\<open>setattr(self, key, value)\<close> for every item of \<^verbatim>\<open>data["data"]\<close>, in order. Three
  names are no plain attributes of an instance of the class: \<^verbatim>\<open>__class__\<close> takes a class
  only, and no value of a request is one; \<^verbatim>\<open>__weakref__\<close> cannot be written;
  \<^verbatim>\<open>__dict__\<close> takes a dictionary only, which then is the attribute table, in place of
  what was set before. Every other name is set, also one that hides a method.
\<close>

fun set_attrs :: "(pykey \<times> pyval) list \<Rightarrow> view \<Rightarrow> py_exn + view" where
  "set_attrs [] obj = Inr obj"
| "set_attrs ((KStr k, v) # kvs) obj =
     (if k = ''__class__''
      then Inl (TypeError (''__class__ must be set to a class, not '' @
                           quoted (type_name v) @ '' object''))
      else if k = ''__weakref__'' then Inl AttributeError
      else if k = ''__dict__''
      then (case v of
              PDict d \<Rightarrow> set_attrs kvs d
            | _ \<Rightarrow> Inl (TypeError (''__dict__ must be set to a dictionary, not a '' @
                                   quoted (type_name v))))
      else set_attrs kvs (AList.update (KStr k) v obj))"
| "set_attrs ((k, v) # kvs) obj =
     Inl (TypeError (''attribute name must be string, not '' @ quoted (key_type_name k)))"

text \<open>
  The constructor. Its one call passes the decoded request, which is a dictionary by
  then: \<^verbatim>\<open>len\<close> is defined on it, \<^verbatim>\<open>data["endpoint"]\<close> and \<^verbatim>\<open>data["data"]\<close> raise
  \<^verbatim>\<open>KeyError\<close> for a missing key, and \<^verbatim>\<open>items\<close> exists on a dictionary only.
\<close>

definition IpcServerResponse :: "(pykey \<times> pyval) list \<Rightarrow> py_exn + view" where
  "IpcServerResponse data =
     (case map_of data (KStr ''endpoint'') of
        None \<Rightarrow> Inl KeyError
      | Some ep \<Rightarrow>
          (case map_of data (KStr ''data'') of
             None \<Rightarrow> Inl KeyError
           | Some (PDict items) \<Rightarrow>
               set_attrs items
                 [(KStr ''_json'', PDict data), (KStr ''length'', PInt (int (length data))),
                  (KStr ''endpoint'', ep)]
           | Some _ \<Rightarrow> Inl AttributeError))"

text \<open>
  The arguments of the call: the cog registered under the first part of the route's
  \<^verbatim>\<open>__qualname__\<close> goes first when there is one; a route without \<^verbatim>\<open>__qualname__\<close>
  (the \<^verbatim>\<open>AttributeError\<close> branch) gets the request alone.
\<close>

definition arguments :: "server \<Rightarrow> route_func \<Rightarrow> view \<Rightarrow> arg list" where
  "arguments srv f server_response =
     (case func_qualname f of
        None \<Rightarrow> [AReq server_response]
      | Some q \<Rightarrow>
          (case bot_cogs srv (takeWhile (\<lambda>c. c \<noteq> CHR ''.'') q) of
             None \<Rightarrow> [AReq server_response]
           | Some attempted_cls \<Rightarrow>
               if py_truthy attempted_cls then [ACog attempted_cls, AReq server_response]
               else [AReq server_response]))"

definition unauthorized_text :: string where
  "unauthorized_text = ''Received unauthorized request (invalid or no token provided).''"

definition unauthorized_error :: string where
  "unauthorized_error = ''Received unauthorized request (Invalid or no token provided).''"

definition invalid_text :: string where
  "invalid_text = ''Received invalid request (invalid or no endpoint given).''"

definition error_dict :: "string \<Rightarrow> int \<Rightarrow> pyval" where
  "error_dict text c = PDict [(KStr ''error'', PStr text), (KStr ''code'', PInt c)]"

text \<open>The call of the route and what becomes of its outcome.\<close>

definition invoke ::
  "server \<Rightarrow> pyval \<Rightarrow> route_func \<Rightarrow> view \<Rightarrow> event list \<times> (py_exn + pyval)" where
  "invoke srv endpoint f server_response =
     (let args = arguments srv f server_response in
      case func_call f args of
        Returns ret \<Rightarrow> ([Invoked f args], Inr ret)
      | Raises text \<Rightarrow>
          ([Invoked f args, Ipc_error endpoint text], Inr (error_dict text 500))
      | RaisesBase text \<Rightarrow> ([Invoked f args], Inl (BaseException text)))"

text \<open>
  The body of the loop up to the response: the events, and the response or the
  exception that leaves the loop.
\<close>

definition route_request ::
  "server \<Rightarrow> (pykey \<times> pyval) list \<Rightarrow> event list \<times> (py_exn + pyval)" where
  "route_request srv request =
     (let endpoint = dict_get request ''endpoint'';
          headers = dict_get request ''headers''
      in case unauthorized (secret_key srv) headers of
           Inl e \<Rightarrow> ([], Inl e)
         | Inr True \<Rightarrow>
             ([Ipc_error endpoint unauthorized_error], Inr (error_dict unauthorized_text 403))
         | Inr False \<Rightarrow>
             if \<not> py_truthy endpoint
             then ([Ipc_error endpoint invalid_text], Inr (error_dict invalid_text 400))
             else
               (case find_endpoint (endpoints srv) endpoint of
                  Inl e \<Rightarrow> ([], Inl e)
                | Inr None \<Rightarrow>
                    ([Ipc_error endpoint invalid_text], Inr (error_dict invalid_text 400))
                | Inr (Some f) \<Rightarrow>
                    (case IpcServerResponse request of
                       Inl e \<Rightarrow> ([], Inl e)
                     | Inr server_response \<Rightarrow> invoke srv endpoint f server_response)))"

subsection \<open>Sending\<close>

definition error_response :: string where
  "error_response =
     ''IPC route returned values which are not able to be sent over sockets.'' @
     ''If you are trying to send a discord.py object,'' @
     ''please only send the data you need.''"

text \<open>\<^verbatim>\<open>if not response.get("code"): response["code"] = 200\<close>, on a dictionary.\<close>

definition default_code :: "(pykey \<times> pyval) list \<Rightarrow> (pykey \<times> pyval) list" where
  "default_code response =
     (if \<not> py_truthy (dict_get response ''code'')
      then AList.update (KStr ''code'') (PInt 200) response
      else response)"

text \<open>
  The \<^verbatim>\<open>try\<close> around the send. Only \<^verbatim>\<open>TypeError\<close> is caught; one whose text is
  not the encoder's "Object of type ... is not JSON serializable" is dropped without a
  word, and the loop goes on. A response that is no dictionary has no \<^verbatim>\<open>get\<close>, and
  the \<^verbatim>\<open>AttributeError\<close> is not caught.
\<close>

definition send_response :: "pyval \<Rightarrow> pyval \<Rightarrow> event list \<times> step_end" where
  "send_response endpoint response =
     (case response of
        PDict kvs \<Rightarrow>
          (case json_dumps (PDict (default_code kvs)) of
             None \<Rightarrow> ([Sent (PDict (default_code kvs))], Continue)
           | Some (TypeError text) \<Rightarrow>
               if startswith text ''Object of type'' \<and>
                  endswith text ''is not JSON serializable''
               then ([Ipc_error endpoint error_response, Sent (error_dict error_response 500)],
                     Abort (JSONEncodeError error_response))
               else ([], Continue)
           | Some e \<Rightarrow> ([], Abort e))
      | _ \<Rightarrow> ([], Abort AttributeError))"

subsection \<open>The loop\<close>

definition handle_message :: "server \<Rightarrow> ws_message \<Rightarrow> event list \<times> step_end" where
  "handle_message srv message =
     (case message of
        Undecodable \<Rightarrow> ([], Abort JSONDecodeError)
      | Text (PDict request) \<Rightarrow>
          (case route_request srv request of
             (evs, Inl e) \<Rightarrow> (evs, Abort e)
           | (evs, Inr response) \<Rightarrow>
               (case send_response (dict_get request ''endpoint'') response of
                  (evs', fin) \<Rightarrow> (evs @ evs', fin)))
      | Text _ \<Rightarrow> ([], Abort AttributeError))"

text \<open>
  \<^verbatim>\<open>async for message in websocket\<close>: the messages in the order of their arrival,
  until the client closes or an exception leaves the body.
\<close>

fun message_loop ::
  "(ws_message \<Rightarrow> event list \<times> step_end) \<Rightarrow> ws_message list \<Rightarrow> event list \<times> conn_end" where
  "message_loop body [] = ([], Closed_by_client)"
| "message_loop body (m # ms) =
     (case body m of
        (evs, Abort e) \<Rightarrow> (evs, Raised e)
      | (evs, Continue) \<Rightarrow>
          (case message_loop body ms of (evs', fin) \<Rightarrow> (evs @ evs', fin)))"

definition handle_accept ::
  "routes \<Rightarrow> server \<Rightarrow> ws_message list \<Rightarrow> (routes \<times> server) \<times> event list \<times> conn_end" where
  "handle_accept ROUTES srv messages =
     (case update_endpoints ROUTES srv of
        (ROUTES', srv') \<Rightarrow> ((ROUTES', srv'), message_loop (handle_message srv') messages))"

section \<open>The discovery listener: \<^verbatim>\<open>handle_multicast\<close>\<close>

definition multicast_message :: "server \<Rightarrow> ws_message \<Rightarrow> event list \<times> step_end" where
  "multicast_message srv message =
     (case message of
        Undecodable \<Rightarrow> ([], Abort JSONDecodeError)
      | Text (PDict request) \<Rightarrow>
          (case unauthorized (secret_key srv) (dict_get request ''headers'') of
             Inl e \<Rightarrow> ([], Abort e)
           | Inr True \<Rightarrow> ([Sent (error_dict ''Invalid or no token provided.'' 403)], Continue)
           | Inr False \<Rightarrow>
               ([Sent (PDict [(KStr ''message'', PStr ''Connection success''),
                              (KStr ''port'', PInt (port srv)),
                              (KStr ''code'', PInt 200)])], Continue))
      | Text _ \<Rightarrow> ([], Abort AttributeError))"

definition handle_multicast :: "server \<Rightarrow> ws_message list \<Rightarrow> event list \<times> conn_end" where
  "handle_multicast srv messages = message_loop (multicast_message srv) messages"

section \<open>Starting and stopping\<close>

text \<open>The calls made on aiohttp's objects, in the order they are made.\<close>

datatype io = Runner_setup runner | Site_start site | Runner_cleanup runner | Site_stop site

definition Server_setup ::
  "aiohttp \<Rightarrow> server \<Rightarrow> application \<Rightarrow> int \<Rightarrow> server \<times> io list \<times> (py_exn + unit)" where
  "Server_setup lib srv app p =
     (let r = AppRunner lib app; srv1 = srv\<lparr>priv_runner := Some r\<rparr> in
      case runner_setup r of
        Some e \<Rightarrow> (srv1, [Runner_setup r], Inl e)
      | None \<Rightarrow>
          (let w = TCPSite lib r (host srv1) p; srv2 = srv1\<lparr>priv_webserver := Some w\<rparr> in
           case site_start w of
             Some e \<Rightarrow> (srv2, [Runner_setup r, Site_start w], Inl e)
           | None \<Rightarrow> (srv2, [Runner_setup r, Site_start w], Inr ())))"

text \<open>
  \<^verbatim>\<open>destroy\<close> has no \<^verbatim>\<open>try\<close>: an exception of \<^verbatim>\<open>cleanup\<close> leaves it at once.
  An attribute that \<^verbatim>\<open>setup\<close> has not assigned yet raises \<^verbatim>\<open>AttributeError\<close>; the site
  \<^verbatim>\<open>setup\<close> assigns is an object, which is truthy.
\<close>

definition destroy :: "server \<Rightarrow> io list \<times> (py_exn + unit)" where
  "destroy srv =
     (case priv_runner srv of
        None \<Rightarrow> ([], Inl AttributeError)
      | Some r \<Rightarrow>
          (case runner_cleanup r of
             Some e \<Rightarrow> ([Runner_cleanup r], Inl e)
           | None \<Rightarrow>
               (case priv_webserver srv of
                  None \<Rightarrow> ([Runner_cleanup r], Inl AttributeError)
                | Some w \<Rightarrow>
                    (case site_stop w of
                       Some e \<Rightarrow> ([Runner_cleanup r, Site_stop w], Inl e)
                     | None \<Rightarrow> ([Runner_cleanup r, Site_stop w], Inr ())))))"

text \<open>
  \<^verbatim>\<open>start\<close> creates the applications and schedules one \<^verbatim>\<open>setup\<close> task for each,
  the discovery listener's first; it runs none of them. The result lists the tasks in
  the order of their creation.
\<close>

definition start :: "server \<Rightarrow> server \<times> (application \<times> int) list \<times> event list" where
  "start srv =
     (let srv1 = srv\<lparr>priv_server := Some (Application ''handle_accept'')\<rparr> in
      if do_multicast srv1
      then (srv1\<lparr>priv_multicast_server := Some (Application ''handle_multicast'')\<rparr>,
            [(Application ''handle_multicast'', multicast_port srv1),
             (Application ''handle_accept'', port srv1)],
            [Ipc_ready])
      else (srv1, [(Application ''handle_accept'', port srv1)], [Ipc_ready]))"

text \<open>
  The schedule in which every task runs to its end before the next one begins. An
  exception of a task stays in the task.
\<close>

fun run_tasks :: "aiohttp \<Rightarrow> server \<Rightarrow> (application \<times> int) list \<Rightarrow> server \<times> io list" where
  "run_tasks lib srv [] = (srv, [])"
| "run_tasks lib srv ((app, p) # ts) =
     (case Server_setup lib srv app p of
        (srv', ios, res) \<Rightarrow>
          (case run_tasks lib srv' ts of (srv'', ios') \<Rightarrow> (srv'', ios @ ios')))"

section \<open>A configuration to run the model on\<close>

text \<open>
  Routes: one returns \<^verbatim>\<open>{"pong": True}\<close>, one raises \<^verbatim>\<open>Exception("boom")\<close>, one
  returns a dictionary holding a library object. \<open>late_ping_route\<close> is a second route
  registered under the name of the first.
\<close>

definition ping_route :: route_func where
  "ping_route =
     \<lparr>func_name = ''ping'', func_qualname = Some ''ping'',
      func_call = (\<lambda>args. Returns (PDict [(KStr ''pong'', PBool True)]))\<rparr>"

definition boom_route :: route_func where
  "boom_route =
     \<lparr>func_name = ''boom'', func_qualname = Some ''boom'',
      func_call = (\<lambda>args. Raises ''boom'')\<rparr>"

definition member_route :: route_func where
  "member_route =
     \<lparr>func_name = ''member'', func_qualname = Some ''member'',
      func_call = (\<lambda>args. Returns (PDict [(KStr ''member'', PObj ''Member'' True)]))\<rparr>"

text \<open>
  Two more: one returns \<^verbatim>\<open>{(1, 2): 1, "member": member}\<close>, whose first key is a tuple,
  and one returns \<^verbatim>\<open>{"code": set()}\<close>, whose code is an empty set.
\<close>

definition keyed_route :: route_func where
  "keyed_route =
     \<lparr>func_name = ''keyed'', func_qualname = Some ''keyed'',
      func_call = (\<lambda>args. Returns (PDict [(KObj ''tuple'', PInt 1),
                                             (KStr ''member'', PObj ''Member'' True)]))\<rparr>"

definition empty_code_route :: route_func where
  "empty_code_route =
     \<lparr>func_name = ''empty_code'', func_qualname = Some ''empty_code'',
      func_call = (\<lambda>args. Returns (PDict [(KStr ''code'', PObj ''set'' False)]))\<rparr>"

definition late_ping_route :: route_func where
  "late_ping_route =
     \<lparr>func_name = ''ping'', func_qualname = Some ''Stats.ping'',
      func_call = (\<lambda>args. Returns (PDict [(KStr ''pong'', PBool False)]))\<rparr>"

text \<open>A server with the secret \<^verbatim>\<open>s3cr3t\<close> and the five routes registered on it.\<close>

definition example_server :: server where
  "example_server =
     Server_route None empty_code_route
       (Server_route None keyed_route
         (Server_route None member_route
           (Server_route None boom_route
             (Server_route None ping_route
               (Server_init Map.empty ''127.0.0.1'' 1010 (Some ''s3cr3t'') True 20000)))))"

text \<open>A server built with the defaults of the constructor: no secret is given.\<close>

definition default_server :: server where
  "default_server = Server_route None ping_route (Server_default Map.empty)"

definition request_to :: "string \<Rightarrow> (pykey \<times> pyval) list \<Rightarrow> (pykey \<times> pyval) list" where
  "request_to name headers =
     [(KStr ''endpoint'', PStr name), (KStr ''data'', PDict []),
      (KStr ''headers'', PDict headers)]"

definition token :: "string \<Rightarrow> (pykey \<times> pyval) list" where
  "token s = [(KStr ''Authorization'', PStr s)]"

text \<open>The view a route of \<open>example_server\<close> is called with.\<close>

definition view_of :: "string \<Rightarrow> (pykey \<times> pyval) list \<Rightarrow> view" where
  "view_of name headers =
     [(KStr ''_json'', PDict (request_to name headers)), (KStr ''length'', PInt 3),
      (KStr ''endpoint'', PStr name)]"

text \<open>
  An aiohttp whose runners and sites work, and one in which the cleanup of the primary
  listener's runner raises.
\<close>

definition good_lib :: aiohttp where
  "good_lib =
     \<lparr>AppRunner = (\<lambda>app. \<lparr>runner_app = app, runner_setup = None, runner_cleanup = None\<rparr>),
      TCPSite = (\<lambda>r h p. \<lparr>site_runner = r, site_host = h, site_port = p,
                            site_start = None, site_stop = None\<rparr>)\<rparr>"

definition failing_lib :: aiohttp where
  "failing_lib =
     \<lparr>AppRunner = (\<lambda>app. \<lparr>runner_app = app, runner_setup = None,
         runner_cleanup =
           (if app = Application ''handle_accept'' then Some (OSError ''cleanup failed'')
            else None)\<rparr>),
      TCPSite = (\<lambda>r h p. \<lparr>site_runner = r, site_host = h, site_port = p,
                            site_start = None, site_stop = None\<rparr>)\<rparr>"

text \<open>The server after \<^verbatim>\<open>start()\<close> and after its two tasks have run.\<close>

definition started :: "aiohttp \<Rightarrow> server" where
  "started lib =
     (case start example_server of (srv, tasks, evs) \<Rightarrow> fst (run_tasks lib srv tasks))"

text \<open>
  The class table after \<^verbatim>\<open>@route()\<close> has decorated \<open>late_ping_route\<close> at module level,
  and a second server, unrelated to the first, with no route of its own.
\<close>

definition module_routes :: routes where
  "module_routes = route None late_ping_route Map.empty"

definition other_server :: server where
  "other_server = Server_init Map.empty ''127.0.0.1'' 2020 (Some ''other'') False 20000"

section \<open>Facts shared by the theorems\<close>

lemma unauthorized_Some:
  "unauthorized (Some s) headers = Inr False \<longleftrightarrow>
     (\<exists>hs. headers = PDict hs \<and> map_of hs (KStr ''Authorization'') = Some (PStr s))"
  by (cases headers)
     (auto simp: unauthorized_def dict_get_def secret_value_def split: option.splits)

lemma unauthorized_None:
  "unauthorized None headers = Inr False \<longleftrightarrow>
     (\<exists>hs. headers = PDict hs \<and> hs \<noteq> [] \<and> dict_get hs ''Authorization'' = PNone)"
  by (cases headers)
     (auto simp: unauthorized_def dict_get_def secret_value_def split: option.splits)

lemma unauthorized_PNone: "unauthorized key PNone = Inr True"
  by (simp add: unauthorized_def)

lemma unauthorized_PDict:
  "unauthorized key (PDict hs) =
     Inr (hs = [] \<or> dict_get hs ''Authorization'' \<noteq> secret_value key)"
  by (simp add: unauthorized_def)

lemma message_loop_Continue:
  "body m = (evs, Continue) \<Longrightarrow>
   message_loop body (m # ms) = (evs @ fst (message_loop body ms), snd (message_loop body ms))"
  by (simp split: prod.splits)

lemma message_loop_Abort:
  "body m = (evs, Abort e) \<Longrightarrow> message_loop body (m # ms) = (evs, Raised e)"
  by simp

lemma default_code_error_dict:
  "c \<noteq> 0 \<Longrightarrow>
   default_code [(KStr ''error'', PStr text), (KStr ''code'', PInt c)] =
     [(KStr ''error'', PStr text), (KStr ''code'', PInt c)]"
  by (simp add: default_code_def dict_get_def)

lemma send_response_error_dict:
  "c \<noteq> 0 \<Longrightarrow> send_response ep (error_dict text c) = ([Sent (error_dict text c)], Continue)"
  by (simp add: send_response_def error_dict_def default_code_error_dict)

lemma first_error_Cons:
  "first_error (x # xs) = (case x of None \<Rightarrow> first_error xs | Some e \<Rightarrow> Some e)"
  by (cases x) simp_all

text \<open>Setting \<^verbatim>\<open>code\<close> to 200 keeps a dictionary encodable.\<close>

lemma json_dumps_update_code:
  "json_dumps (PDict kvs) = None \<Longrightarrow>
   json_dumps (PDict (AList.update (KStr ''code'') (PInt 200) kvs)) = None"
proof (induction kvs)
  case Nil
  then show ?case by simp
next
  case (Cons p kvs)
  obtain k v where p: "p = (k, v)" by (cases p)
  from Cons.prems p have k: "key_error k = None" and v: "json_dumps v = None"
    and rest: "json_dumps (PDict kvs) = None"
    by (auto simp: first_error_Cons split: option.splits)
  from rest have "json_dumps (PDict (AList.update (KStr ''code'') (PInt 200) kvs)) = None"
    by (rule Cons.IH)
  with p k v rest show ?case by (simp add: first_error_Cons)
qed

lemma json_dumps_default_code:
  "json_dumps (PDict kvs) = None \<Longrightarrow> json_dumps (PDict (default_code kvs)) = None"
  by (simp add: default_code_def json_dumps_update_code del: json_dumps.simps)

lemma startswith_not_serializable: "startswith (not_serializable T) ''Object of type''"
  by (simp add: startswith_def not_serializable_def)

lemma endswith_not_serializable:
  "endswith (not_serializable T) ''is not JSON serializable''"
  by (simp add: endswith_def not_serializable_def)

text \<open>Sending raises no route: an \<open>Invoked\<close> event comes from the routing alone.\<close>

lemma send_response_Invoked: "send_response ep r = (evs, fin) \<Longrightarrow> Invoked f args \<notin> set evs"
  by (auto simp: send_response_def error_dict_def
           split: pyval.splits option.splits py_exn.splits if_splits)

lemma invoke_Invoked:
  "Invoked f args \<in> set (fst (invoke srv ep g v)) \<longleftrightarrow> f = g \<and> args = arguments srv g v"
  by (auto simp: invoke_def Let_def split: outcome.splits)

text \<open>
  A route that was called was reached on the one path that leads to the call: then the
  routing of the request is the call of that route.
\<close>

lemma route_request_Invoked:
  assumes "Invoked f args \<in> set (fst (route_request srv request))"
  shows "\<exists>v. route_request srv request = invoke srv (dict_get request ''endpoint'') f v \<and>
             args = arguments srv f v"
  using assms
  by (auto simp: route_request_def Let_def invoke_Invoked
           split: sum.splits bool.splits if_splits option.splits)

lemma handle_message_Invoked:
  assumes "Invoked f args \<in> set (fst (handle_message srv (Text (PDict request))))"
  shows "Invoked f args \<in> set (fst (route_request srv request))"
  using assms
  by (auto simp: handle_message_def split: prod.splits sum.splits dest: send_response_Invoked)

text \<open>Unfolding the model on the configuration above.\<close>

lemmas run_defs =
  handle_message_def multicast_message_def route_request_def invoke_def arguments_def
  send_response_def default_code_def dict_get_def unauthorized_def secret_value_def
  IpcServerResponse_def error_dict_def request_to_def token_def view_of_def
  example_server_def default_server_def Server_route_def Server_init_def Server_default_def
  ping_route_def boom_route_def member_route_def late_ping_route_def
  keyed_route_def empty_code_route_def
  startswith_def endswith_def not_serializable_def Let_def

lemma example_ping:
  "handle_message example_server (Text (PDict (request_to ''ping'' (token ''s3cr3t'')))) =
     ([Invoked ping_route [AReq (view_of ''ping'' (token ''s3cr3t''))],
       Sent (PDict [(KStr ''pong'', PBool True), (KStr ''code'', PInt 200)])], Continue)"
  by (simp add: run_defs)

lemma example_boom:
  "handle_message example_server (Text (PDict (request_to ''boom'' (token ''s3cr3t'')))) =
     ([Invoked boom_route [AReq (view_of ''boom'' (token ''s3cr3t''))],
       Ipc_error (PStr ''boom'') ''boom'',
       Sent (error_dict ''boom'' 500)], Continue)"
  by (simp add: run_defs)

lemma example_member:
  "handle_message example_server (Text (PDict (request_to ''member'' (token ''s3cr3t'')))) =
     ([Invoked member_route [AReq (view_of ''member'' (token ''s3cr3t''))],
       Ipc_error (PStr ''member'') error_response,
       Sent (error_dict error_response 500)], Abort (JSONEncodeError error_response))"
  by (simp add: run_defs)

text \<open>The response a called route leads to, by its outcome.\<close>

lemma handle_message_Returns:
  assumes inv: "Invoked f args \<in> set (fst (handle_message srv (Text (PDict request))))"
      and ret: "func_call f args = Returns response"
  shows "handle_message srv (Text (PDict request)) =
           (Invoked f args # fst (send_response (dict_get request ''endpoint'') response),
            snd (send_response (dict_get request ''endpoint'') response))"
proof -
  from inv have "Invoked f args \<in> set (fst (route_request srv request))"
    by (rule handle_message_Invoked)
  then obtain v where
    rr: "route_request srv request = invoke srv (dict_get request ''endpoint'') f v" and
    args: "args = arguments srv f v"
    using route_request_Invoked by blast
  from ret args have "invoke srv (dict_get request ''endpoint'') f v =
      ([Invoked f args], Inr response)"
    by (simp add: invoke_def)
  with rr show ?thesis
    by (simp add: handle_message_def split: prod.splits)
qed

lemma handle_message_Raises:
  assumes inv: "Invoked f args \<in> set (fst (handle_message srv (Text (PDict request))))"
      and ret: "func_call f args = Raises text"
  shows "handle_message srv (Text (PDict request)) =
           ([Invoked f args, Ipc_error (dict_get request ''endpoint'') text,
             Sent (error_dict text 500)], Continue)"
proof -
  from inv have "Invoked f args \<in> set (fst (route_request srv request))"
    by (rule handle_message_Invoked)
  then obtain v where
    rr: "route_request srv request = invoke srv (dict_get request ''endpoint'') f v" and
    args: "args = arguments srv f v"
    using route_request_Invoked by blast
  from ret args have "invoke srv (dict_get request ''endpoint'') f v =
      ([Invoked f args, Ipc_error (dict_get request ''endpoint'') text],
       Inr (error_dict text 500))"
    by (simp add: invoke_def)
  with rr show ?thesis
    by (simp add: handle_message_def send_response_error_dict)
qed

text \<open>The three failures the routing and the sending answer themselves.\<close>

lemma handle_message_unauthorized:
  assumes "unauthorized (secret_key srv) (dict_get request ''headers'') = Inr True"
  shows "handle_message srv (Text (PDict request)) =
           ([Ipc_error (dict_get request ''endpoint'') unauthorized_error,
             Sent (error_dict unauthorized_text 403)], Continue)"
  using assms by (simp add: handle_message_def route_request_def send_response_error_dict)

lemma handle_message_invalid:
  assumes "unauthorized (secret_key srv) (dict_get request ''headers'') = Inr False"
      and "\<not> py_truthy (dict_get request ''endpoint'') \<or>
           find_endpoint (endpoints srv) (dict_get request ''endpoint'') = Inr None"
  shows "handle_message srv (Text (PDict request)) =
           ([Ipc_error (dict_get request ''endpoint'') invalid_text,
             Sent (error_dict invalid_text 400)], Continue)"
  using assms
  by (auto simp: handle_message_def route_request_def Let_def send_response_error_dict)

lemma handle_message_unserializable:
  assumes inv: "Invoked f args \<in> set (fst (handle_message srv (Text (PDict request))))"
      and ret: "func_call f args = Returns (PDict ret)"
      and ser: "json_dumps (PDict (default_code ret)) = Some (TypeError (not_serializable T))"
  shows "handle_message srv (Text (PDict request)) =
           ([Invoked f args, Ipc_error (dict_get request ''endpoint'') error_response,
             Sent (error_dict error_response 500)], Abort (JSONEncodeError error_response))"
proof -
  from ser have "send_response (dict_get request ''endpoint'') (PDict ret) =
      ([Ipc_error (dict_get request ''endpoint'') error_response,
        Sent (error_dict error_response 500)], Abort (JSONEncodeError error_response))"
    by (simp add: send_response_def startswith_not_serializable endswith_not_serializable)
  with handle_message_Returns [OF inv ret] show ?thesis by simp
qed

lemma multicast_message_no_event: "Ipc_error e text \<notin> set (fst (multicast_message srv message))"
  by (auto simp: multicast_message_def
           split: ws_message.splits pyval.splits sum.splits bool.splits)

lemma started_good:
  "priv_runner (started good_lib) = Some (AppRunner good_lib (Application ''handle_accept'')) \<and>
   priv_webserver (started good_lib) =
     Some (TCPSite good_lib (AppRunner good_lib (Application ''handle_accept'')) ''127.0.0.1'' 1010)"
  by (simp add: started_def start_def Server_setup_def good_lib_def Let_def
        example_server_def Server_route_def Server_init_def)

lemma started_failing:
  "priv_runner (started failing_lib) =
     Some (AppRunner failing_lib (Application ''handle_accept'')) \<and>
   priv_webserver (started failing_lib) =
     Some (TCPSite failing_lib (AppRunner failing_lib (Application ''handle_accept''))
            ''127.0.0.1'' 1010)"
  by (simp add: started_def start_def Server_setup_def failing_lib_def Let_def
        example_server_def Server_route_def Server_init_def)

text \<open>
  Paths on which the loop ends, or goes on, without any response. None of them is
  reached by a request of the documented shape with encodable results: headers that are
  neither missing nor a mapping, an endpoint that cannot be hashed, a request to a
  registered route without a \<^verbatim>\<open>data\<close> mapping or with \<^verbatim>\<open>__class__\<close> among its data, and
  a returned mapping with a key the encoder rejects.
\<close>

lemma headers_not_a_mapping:
  "handle_message srv (Text (PDict [(KStr ''headers'', PStr ''s3cr3t'')])) =
     ([], Abort AttributeError)"
  by (simp add: handle_message_def route_request_def unauthorized_def dict_get_def)

lemma endpoint_not_hashable:
  assumes "unauthorized (secret_key srv) (dict_get request ''headers'') = Inr False"
      and "dict_get request ''endpoint'' = PList (x # xs)"
  shows "handle_message srv (Text (PDict request)) =
           ([], Abort (TypeError (''unhashable type: '' @ quoted ''list'')))"
  using assms by (simp add: handle_message_def route_request_def)

lemma request_without_data:
  "handle_message example_server
     (Text (PDict [(KStr ''endpoint'', PStr ''ping''),
                   (KStr ''headers'', PDict (token ''s3cr3t''))])) = ([], Abort KeyError)"
  by (simp add: run_defs)

lemma request_sets_class:
  "handle_message example_server
     (Text (PDict [(KStr ''endpoint'', PStr ''ping''),
                   (KStr ''data'', PDict [(KStr ''__class__'', PInt 1)]),
                   (KStr ''headers'', PDict (token ''s3cr3t''))])) =
     ([], Abort (TypeError (''__class__ must be set to a class, not '' @ quoted ''int'' @
                            '' object'')))"
  by (simp add: run_defs)

lemma rejected_key_is_dropped:
  assumes "json_dumps (PDict (default_code kvs)) = Some (TypeError (bad_key T))"
  shows "send_response ep (PDict kvs) = ([], Continue)"
  using assms by (simp add: send_response_def startswith_def bad_key_def)

section \<open>The claims\<close>

text \<open>
  C1, as amended. With a secret key configured (a string), authentication succeeds
  exactly when the headers are a mapping whose \<^verbatim>\<open>Authorization\<close> entry is that string;
  and a message whose headers are missing, or are a mapping that lacks the entry or
  carries another value, is answered with the 403 response, raises \<^verbatim>\<open>ipc_error\<close>, calls
  no route and leaves the loop running.
\<close>

theorem C1_unauthorized_403:
  assumes key: "secret_key srv = Some s"
  shows
    "(unauthorized (secret_key srv) (dict_get request ''headers'') = Inr False \<longleftrightarrow>
        (\<exists>hs. dict_get request ''headers'' = PDict hs \<and>
              map_of hs (KStr ''Authorization'') = Some (PStr s))) \<and>
     (dict_get request ''headers'' = PNone \<or>
      (\<exists>hs. dict_get request ''headers'' = PDict hs \<and>
            map_of hs (KStr ''Authorization'') \<noteq> Some (PStr s)) \<longrightarrow>
        handle_message srv (Text (PDict request)) =
          ([Ipc_error (dict_get request ''endpoint'') unauthorized_error,
            Sent (error_dict unauthorized_text 403)], Continue) \<and>
        (\<forall>f args. Invoked f args \<notin> set (fst (handle_message srv (Text (PDict request))))))"
proof (intro conjI impI)
  show iff: "unauthorized (secret_key srv) (dict_get request ''headers'') = Inr False \<longleftrightarrow>
      (\<exists>hs. dict_get request ''headers'' = PDict hs \<and>
            map_of hs (KStr ''Authorization'') = Some (PStr s))"
    by (simp add: key unauthorized_Some)
  assume bad: "dict_get request ''headers'' = PNone \<or>
      (\<exists>hs. dict_get request ''headers'' = PDict hs \<and>
            map_of hs (KStr ''Authorization'') \<noteq> Some (PStr s))"
  then have "\<exists>b. unauthorized (secret_key srv) (dict_get request ''headers'') = Inr b"
    by (auto simp: unauthorized_PNone unauthorized_PDict)
  moreover from bad iff
  have "unauthorized (secret_key srv) (dict_get request ''headers'') \<noteq> Inr False"
    by auto
  ultimately have un: "unauthorized (secret_key srv) (dict_get request ''headers'') = Inr True"
    by auto
  then have rr: "route_request srv request =
      ([Ipc_error (dict_get request ''endpoint'') unauthorized_error],
       Inr (error_dict unauthorized_text 403))"
    by (simp add: route_request_def)
  show run: "handle_message srv (Text (PDict request)) =
      ([Ipc_error (dict_get request ''endpoint'') unauthorized_error,
        Sent (error_dict unauthorized_text 403)], Continue)"
    by (simp add: handle_message_def rr send_response_error_dict)
  show "\<forall>f args. Invoked f args \<notin> set (fst (handle_message srv (Text (PDict request))))"
    by (simp add: run)
qed

theorem C1_unauthorized_403_witness:
  "secret_key example_server = Some ''s3cr3t'' \<and>
   unauthorized (secret_key example_server)
     (dict_get (request_to ''ping'' (token ''s3cr3t'')) ''headers'') = Inr False \<and>
   handle_message example_server (Text (PDict (request_to ''ping'' (token ''wrong'')))) =
     ([Ipc_error (PStr ''ping'') unauthorized_error,
       Sent (error_dict unauthorized_text 403)], Continue) \<and>
   Invoked ping_route [AReq (view_of ''ping'' (token ''wrong''))] \<notin>
     set (fst (handle_message example_server (Text (PDict (request_to ''ping'' (token ''wrong''))))))"
proof -
  have key: "secret_key example_server = Some ''s3cr3t''"
    by (simp add: example_server_def Server_route_def Server_init_def)
  have ok: "\<exists>hs. dict_get (request_to ''ping'' (token ''s3cr3t'')) ''headers'' = PDict hs \<and>
      map_of hs (KStr ''Authorization'') = Some (PStr ''s3cr3t'')"
    by (simp add: dict_get_def request_to_def token_def)
  have bad: "dict_get (request_to ''ping'' (token ''wrong'')) ''headers'' = PNone \<or>
      (\<exists>hs. dict_get (request_to ''ping'' (token ''wrong'')) ''headers'' = PDict hs \<and>
            map_of hs (KStr ''Authorization'') \<noteq> Some (PStr ''s3cr3t''))"
    by (simp add: dict_get_def request_to_def token_def)
  have ep: "dict_get (request_to ''ping'' (token ''wrong'')) ''endpoint'' = PStr ''ping''"
    by (simp add: dict_get_def request_to_def)
  from C1_unauthorized_403 [OF key, of "request_to ''ping'' (token ''s3cr3t'')"] ok
  have "unauthorized (secret_key example_server)
     (dict_get (request_to ''ping'' (token ''s3cr3t'')) ''headers'') = Inr False"
    by blast
  moreover from C1_unauthorized_403 [OF key, of "request_to ''ping'' (token ''wrong'')"] bad
  have "handle_message example_server (Text (PDict (request_to ''ping'' (token ''wrong'')))) =
     ([Ipc_error (dict_get (request_to ''ping'' (token ''wrong'')) ''endpoint'') unauthorized_error,
       Sent (error_dict unauthorized_text 403)], Continue) \<and>
    (\<forall>f args. Invoked f args \<notin>
       set (fst (handle_message example_server (Text (PDict (request_to ''ping'' (token ''wrong'')))))))"
    by blast
  ultimately show ?thesis using key ep by simp
qed

text \<open>
  C1 as stated fails on a server built with the constructor's defaults, where
  \<^verbatim>\<open>secret_key\<close> is \<^verbatim>\<open>None\<close>: headers that lack \<^verbatim>\<open>Authorization\<close> pass the test, the
  route is called and the response has code 200.
\<close>

theorem C1_counterexample:
  "secret_key default_server = None \<and>
   map_of [(KStr ''x'', PStr ''y'')] (KStr ''Authorization'') = None \<and>
   handle_message default_server
       (Text (PDict (request_to ''ping'' [(KStr ''x'', PStr ''y'')]))) =
     ([Invoked ping_route [AReq (view_of ''ping'' [(KStr ''x'', PStr ''y'')])],
       Sent (PDict [(KStr ''pong'', PBool True), (KStr ''code'', PInt 200)])], Continue)"
  by (simp add: run_defs)

text \<open>
  C2, as amended. In the merge the process-wide table wins: on the first merge of an
  instance, every name of the process-wide table resolves to the process-wide route
  afterwards, whatever the instance had registered under it; the instance's own entry
  survives only under a name the process-wide table does not have.
\<close>

theorem C2_process_wide_entry_wins:
  assumes "own_ROUTES srv = None"
  shows
    "(ROUTES name = Some f \<longrightarrow>
        endpoints (snd (update_endpoints ROUTES srv)) name = Some f) \<and>
     (ROUTES name = None \<longrightarrow>
        endpoints (snd (update_endpoints ROUTES srv)) name = endpoints srv name)"
  using assms by (simp add: update_endpoints_def self_ROUTES_def map_add_def)

theorem C2_process_wide_entry_wins_witness:
  "own_ROUTES example_server = None \<and>
   module_routes ''ping'' = Some late_ping_route \<and>
   module_routes ''boom'' = None \<and>
   endpoints (snd (update_endpoints module_routes example_server)) ''ping'' =
     Some late_ping_route \<and>
   endpoints (snd (update_endpoints module_routes example_server)) ''boom'' =
     endpoints example_server ''boom''"
proof -
  have fresh: "own_ROUTES example_server = None"
    by (simp add: example_server_def Server_route_def Server_init_def)
  have ping: "module_routes ''ping'' = Some late_ping_route"
    by (simp add: module_routes_def route_def late_ping_route_def)
  have boom: "module_routes ''boom'' = None"
    by (simp add: module_routes_def route_def late_ping_route_def)
  from C2_process_wide_entry_wins [OF fresh, of module_routes "''ping''" late_ping_route]
    C2_process_wide_entry_wins [OF fresh, of module_routes "''boom''"] fresh ping boom
  show ?thesis by blast
qed

text \<open>
  C2 as stated fails: the instance registers \<open>ping_route\<close> as \<^verbatim>\<open>ping\<close>, the module-level
  decorator registers another route under the same name, and after the merge the name
  resolves to the latter.
\<close>

theorem C2_counterexample:
  "endpoints example_server ''ping'' = Some ping_route \<and>
   module_routes ''ping'' = Some late_ping_route \<and>
   endpoints (snd (update_endpoints module_routes example_server)) ''ping'' \<noteq>
     Some ping_route"
  by (simp add: update_endpoints_def self_ROUTES_def map_add_def module_routes_def route_def
        example_server_def Server_route_def Server_init_def
        ping_route_def boom_route_def member_route_def late_ping_route_def
        keyed_route_def empty_code_route_def)

text \<open>
  C9, as amended. The merge leaves the process-wide table as it was; what it empties is
  the table the instance reads from then on. So a further merge on the same instance
  changes nothing, whatever the process-wide table holds by then, and the first merge of
  any other instance still receives every process-wide entry.
\<close>

theorem C9_merge_shadows_table:
  "fst (update_endpoints ROUTES srv) = ROUTES \<and>
   self_ROUTES ROUTES' (snd (update_endpoints ROUTES srv)) = Map.empty \<and>
   update_endpoints ROUTES' (snd (update_endpoints ROUTES srv)) =
     (ROUTES', snd (update_endpoints ROUTES srv)) \<and>
   (own_ROUTES other = None \<longrightarrow>
      endpoints (snd (update_endpoints (fst (update_endpoints ROUTES srv)) other)) =
        endpoints other ++ ROUTES)"
  by (simp add: update_endpoints_def self_ROUTES_def)

theorem C9_merge_shadows_table_witness:
  "own_ROUTES other_server = None \<and>
   fst (update_endpoints module_routes example_server) = module_routes \<and>
   update_endpoints module_routes (snd (update_endpoints module_routes example_server)) =
     (module_routes, snd (update_endpoints module_routes example_server)) \<and>
   endpoints
     (snd (update_endpoints (fst (update_endpoints module_routes example_server)) other_server)) =
     endpoints other_server ++ module_routes"
proof -
  have fresh: "own_ROUTES other_server = None"
    by (simp add: other_server_def Server_init_def)
  from C9_merge_shadows_table [of module_routes example_server module_routes other_server] fresh
  show ?thesis by blast
qed

text \<open>
  C9 as stated fails: after the merge on the first server the process-wide table still
  holds the route, and the merge on a second server, which has no route of its own, puts
  it into that server's table.
\<close>

theorem C9_counterexample:
  "fst (update_endpoints module_routes example_server) ''ping'' = Some late_ping_route \<and>
   endpoints other_server ''ping'' = None \<and>
   endpoints
     (snd (update_endpoints (fst (update_endpoints module_routes example_server)) other_server))
     ''ping'' = Some late_ping_route"
  by (simp add: update_endpoints_def self_ROUTES_def map_add_def module_routes_def route_def
        other_server_def Server_init_def late_ping_route_def)

text \<open>
  C3. When the called route returns a mapping that has no \<^verbatim>\<open>code\<close> key, or a falsy value
  under it, and the mapping can be encoded, then the response sent is that mapping with
  \<^verbatim>\<open>code\<close> set to 200: every other key has the value the route gave it.
\<close>

theorem C3_default_code_200:
  assumes inv: "Invoked f args \<in> set (fst (handle_message srv (Text (PDict request))))"
      and ret: "func_call f args = Returns (PDict ret)"
      and nocode: "map_of ret (KStr ''code'') = None \<or>
                   (\<exists>v. map_of ret (KStr ''code'') = Some v \<and> \<not> py_truthy v)"
      and ser: "json_dumps (PDict ret) = None"
  shows
    "handle_message srv (Text (PDict request)) =
       ([Invoked f args, Sent (PDict (AList.update (KStr ''code'') (PInt 200) ret))], Continue) \<and>
     map_of (AList.update (KStr ''code'') (PInt 200) ret) (KStr ''code'') = Some (PInt 200) \<and>
     (\<forall>k. k \<noteq> KStr ''code'' \<longrightarrow>
        map_of (AList.update (KStr ''code'') (PInt 200) ret) k = map_of ret k)"
proof -
  from nocode have falsy: "\<not> py_truthy (dict_get ret ''code'')"
    by (auto simp: dict_get_def)
  then have dc: "default_code ret = AList.update (KStr ''code'') (PInt 200) ret"
    by (simp add: default_code_def)
  from ser have "json_dumps (PDict (default_code ret)) = None"
    by (rule json_dumps_default_code)
  then have "send_response (dict_get request ''endpoint'') (PDict ret) =
      ([Sent (PDict (default_code ret))], Continue)"
    by (simp add: send_response_def)
  with handle_message_Returns [OF inv ret] dc
  have "handle_message srv (Text (PDict request)) =
      ([Invoked f args, Sent (PDict (AList.update (KStr ''code'') (PInt 200) ret))], Continue)"
    by simp
  then show ?thesis by (simp add: update_conv')
qed

theorem C3_default_code_200_witness:
  "handle_message example_server (Text (PDict (request_to ''ping'' (token ''s3cr3t'')))) =
     ([Invoked ping_route [AReq (view_of ''ping'' (token ''s3cr3t''))],
       Sent (PDict [(KStr ''pong'', PBool True), (KStr ''code'', PInt 200)])], Continue) \<and>
   map_of [(KStr ''pong'', PBool True), (KStr ''code'', PInt 200)] (KStr ''pong'') =
     map_of [(KStr ''pong'', PBool True)] (KStr ''pong'')"
proof -
  have inv: "Invoked ping_route [AReq (view_of ''ping'' (token ''s3cr3t''))] \<in>
      set (fst (handle_message example_server
        (Text (PDict (request_to ''ping'' (token ''s3cr3t''))))))"
    by (simp add: example_ping)
  have ret: "func_call ping_route [AReq (view_of ''ping'' (token ''s3cr3t''))] =
      Returns (PDict [(KStr ''pong'', PBool True)])"
    by (simp add: ping_route_def)
  have nocode: "map_of [(KStr ''pong'', PBool True)] (KStr ''code'') = None \<or>
      (\<exists>v. map_of [(KStr ''pong'', PBool True)] (KStr ''code'') = Some v \<and> \<not> py_truthy v)"
    by simp
  have ser: "json_dumps (PDict [(KStr ''pong'', PBool True)]) = None"
    by simp
  from C3_default_code_200 [OF inv ret nocode ser] show ?thesis by simp
qed

text \<open>
  C4. When the called route raises an exception, the server raises \<^verbatim>\<open>ipc_error\<close> with
  the endpoint and the exception, sends \<^verbatim>\<open>{"error": str(error), "code": 500}\<close>, and the
  loop goes on with the messages that follow on the connection.
\<close>

theorem C4_handler_exception_500:
  assumes inv: "Invoked f args \<in> set (fst (handle_message srv (Text (PDict request))))"
      and ret: "func_call f args = Raises text"
  shows
    "handle_message srv (Text (PDict request)) =
       ([Invoked f args, Ipc_error (dict_get request ''endpoint'') text,
         Sent (PDict [(KStr ''error'', PStr text), (KStr ''code'', PInt 500)])], Continue) \<and>
     message_loop (handle_message srv) (Text (PDict request) # rest) =
       ([Invoked f args, Ipc_error (dict_get request ''endpoint'') text,
         Sent (PDict [(KStr ''error'', PStr text), (KStr ''code'', PInt 500)])] @
        fst (message_loop (handle_message srv) rest),
        snd (message_loop (handle_message srv) rest))"
proof -
  have run: "handle_message srv (Text (PDict request)) =
      ([Invoked f args, Ipc_error (dict_get request ''endpoint'') text,
        Sent (PDict [(KStr ''error'', PStr text), (KStr ''code'', PInt 500)])], Continue)"
    using handle_message_Raises [OF inv ret] by (simp add: error_dict_def)
  from message_loop_Continue [of "handle_message srv" "Text (PDict request)", OF run] run
  show ?thesis by simp
qed

theorem C4_handler_exception_500_witness:
  "message_loop (handle_message example_server)
     [Text (PDict (request_to ''boom'' (token ''s3cr3t''))),
      Text (PDict (request_to ''ping'' (token ''s3cr3t'')))] =
     ([Invoked boom_route [AReq (view_of ''boom'' (token ''s3cr3t''))],
       Ipc_error (PStr ''boom'') ''boom'',
       Sent (PDict [(KStr ''error'', PStr ''boom''), (KStr ''code'', PInt 500)]),
       Invoked ping_route [AReq (view_of ''ping'' (token ''s3cr3t''))],
       Sent (PDict [(KStr ''pong'', PBool True), (KStr ''code'', PInt 200)])],
      Closed_by_client)"
proof -
  have inv: "Invoked boom_route [AReq (view_of ''boom'' (token ''s3cr3t''))] \<in>
      set (fst (handle_message example_server
        (Text (PDict (request_to ''boom'' (token ''s3cr3t''))))))"
    by (simp add: example_boom)
  have ret: "func_call boom_route [AReq (view_of ''boom'' (token ''s3cr3t''))] = Raises ''boom''"
    by (simp add: boom_route_def)
  have ep: "dict_get (request_to ''boom'' (token ''s3cr3t'')) ''endpoint'' = PStr ''boom''"
    by (simp add: dict_get_def request_to_def)
  from C4_handler_exception_500 [OF inv ret,
      of "[Text (PDict (request_to ''ping'' (token ''s3cr3t'')))]"]
  show ?thesis by (simp add: ep example_ping)
qed



text \<open>
  C6, as amended. When the called route returns a mapping on which, once the code
  default is applied, the encoder fails first at a value it cannot serialize (its
  \<^verbatim>\<open>TypeError\<close> reads "Object of type ... is not JSON serializable"), nothing of the
  mapping is sent: the server raises \<^verbatim>\<open>ipc_error\<close>, sends the one fallback response with
  code 500 and raises \<^verbatim>\<open>JSONEncodeError\<close>, which ends the loop whatever messages follow.
  The 403, 400 and 500 responses of the other failures are sent with the loop going on.
\<close>

theorem C6_serialization_failure_fatal:
  assumes inv: "Invoked f args \<in> set (fst (handle_message srv (Text (PDict request))))"
      and ret: "func_call f args = Returns (PDict ret)"
      and ser: "json_dumps (PDict (default_code ret)) = Some (TypeError (not_serializable T))"
  shows
    "handle_message srv (Text (PDict request)) =
       ([Invoked f args, Ipc_error (dict_get request ''endpoint'') error_response,
         Sent (PDict [(KStr ''error'', PStr error_response), (KStr ''code'', PInt 500)])],
        Abort (JSONEncodeError error_response)) \<and>
     message_loop (handle_message srv) (Text (PDict request) # rest) =
       ([Invoked f args, Ipc_error (dict_get request ''endpoint'') error_response,
         Sent (PDict [(KStr ''error'', PStr error_response), (KStr ''code'', PInt 500)])],
        Raised (JSONEncodeError error_response)) \<and>
     send_response ep (error_dict text 403) = ([Sent (error_dict text 403)], Continue) \<and>
     send_response ep (error_dict text 400) = ([Sent (error_dict text 400)], Continue) \<and>
     send_response ep (error_dict text 500) = ([Sent (error_dict text 500)], Continue)"
proof -
  from ser have "send_response (dict_get request ''endpoint'') (PDict ret) =
      ([Ipc_error (dict_get request ''endpoint'') error_response,
        Sent (error_dict error_response 500)], Abort (JSONEncodeError error_response))"
    by (simp add: send_response_def startswith_not_serializable endswith_not_serializable)
  with handle_message_Returns [OF inv ret]
  have run: "handle_message srv (Text (PDict request)) =
      ([Invoked f args, Ipc_error (dict_get request ''endpoint'') error_response,
        Sent (PDict [(KStr ''error'', PStr error_response), (KStr ''code'', PInt 500)])],
       Abort (JSONEncodeError error_response))"
    by (simp add: error_dict_def)
  from message_loop_Abort [of "handle_message srv" "Text (PDict request)", OF run] run
  show ?thesis
    by (simp add: send_response_error_dict)
qed

theorem C6_serialization_failure_fatal_witness:
  "message_loop (handle_message example_server)
     [Text (PDict (request_to ''member'' (token ''s3cr3t''))),
      Text (PDict (request_to ''ping'' (token ''s3cr3t'')))] =
     ([Invoked member_route [AReq (view_of ''member'' (token ''s3cr3t''))],
       Ipc_error (PStr ''member'') error_response,
       Sent (PDict [(KStr ''error'', PStr error_response), (KStr ''code'', PInt 500)])],
      Raised (JSONEncodeError error_response))"
proof -
  have inv: "Invoked member_route [AReq (view_of ''member'' (token ''s3cr3t''))] \<in>
      set (fst (handle_message example_server
        (Text (PDict (request_to ''member'' (token ''s3cr3t''))))))"
    by (simp add: example_member)
  have ret: "func_call member_route [AReq (view_of ''member'' (token ''s3cr3t''))] =
      Returns (PDict [(KStr ''member'', PObj ''Member'' True)])"
    by (simp add: member_route_def)
  have ser: "json_dumps (PDict (default_code [(KStr ''member'', PObj ''Member'' True)])) =
      Some (TypeError (not_serializable ''Member''))"
    by (simp add: default_code_def dict_get_def)
  have ep: "dict_get (request_to ''member'' (token ''s3cr3t'')) ''endpoint'' = PStr ''member''"
    by (simp add: dict_get_def request_to_def)
  from C6_serialization_failure_fatal [OF inv ret ser,
      of "[Text (PDict (request_to ''ping'' (token ''s3cr3t'')))]"]
  show ?thesis by (simp add: ep)
qed

text \<open>
  C6 as stated fails. The mapping \<open>keyed_route\<close> returns holds a value that cannot be
  serialized, behind a key the encoder rejects first: nothing is sent, no \<^verbatim>\<open>ipc_error\<close> is
  raised and the next message of the connection is served. The mapping
  \<open>empty_code_route\<close> returns holds an empty set as its code: the default replaces it and
  \<^verbatim>\<open>{"code": 200}\<close> is sent.
\<close>

theorem C6_counterexample:
  "func_call keyed_route [AReq (view_of ''keyed'' (token ''s3cr3t''))] =
     Returns (PDict [(KObj ''tuple'', PInt 1), (KStr ''member'', PObj ''Member'' True)]) \<and>
   json_dumps (PObj ''Member'' True) = Some (TypeError (not_serializable ''Member'')) \<and>
   message_loop (handle_message example_server)
     [Text (PDict (request_to ''keyed'' (token ''s3cr3t''))),
      Text (PDict (request_to ''ping'' (token ''s3cr3t'')))] =
     ([Invoked keyed_route [AReq (view_of ''keyed'' (token ''s3cr3t''))],
       Invoked ping_route [AReq (view_of ''ping'' (token ''s3cr3t''))],
       Sent (PDict [(KStr ''pong'', PBool True), (KStr ''code'', PInt 200)])],
      Closed_by_client) \<and>
   json_dumps (PObj ''set'' False) = Some (TypeError (not_serializable ''set'')) \<and>
   handle_message example_server (Text (PDict (request_to ''empty_code'' (token ''s3cr3t'')))) =
     ([Invoked empty_code_route [AReq (view_of ''empty_code'' (token ''s3cr3t''))],
       Sent (PDict [(KStr ''code'', PInt 200)])], Continue)"
  by (simp add: run_defs bad_key_def)

text \<open>
  C7, as amended. With a secret key configured (a string), for a message of the
  discovery listener whose headers are missing, falsy or a mapping: when the headers
  hold the secret under \<^verbatim>\<open>Authorization\<close>, the response is the success message with the
  port of the primary listener and code 200; otherwise it is an error response with
  code 403, which has no \<^verbatim>\<open>port\<close> field. Either way the loop goes on.
\<close>

theorem C7_discovery_response:
  assumes key: "secret_key srv = Some s"
  shows
    "((\<exists>hs. dict_get request ''headers'' = PDict hs \<and>
            map_of hs (KStr ''Authorization'') = Some (PStr s)) \<longrightarrow>
        multicast_message srv (Text (PDict request)) =
          ([Sent (PDict [(KStr ''message'', PStr ''Connection success''),
                         (KStr ''port'', PInt (port srv)),
                         (KStr ''code'', PInt 200)])], Continue)) \<and>
     (\<not> py_truthy (dict_get request ''headers'') \<or>
      (\<exists>hs. dict_get request ''headers'' = PDict hs \<and>
            map_of hs (KStr ''Authorization'') \<noteq> Some (PStr s)) \<longrightarrow>
        (\<exists>text. multicast_message srv (Text (PDict request)) =
           ([Sent (PDict [(KStr ''error'', PStr text), (KStr ''code'', PInt 403)])], Continue) \<and>
           map_of [(KStr ''error'', PStr text), (KStr ''code'', PInt 403)] (KStr ''port'') =
             None))"
proof (intro conjI impI)
  assume "\<exists>hs. dict_get request ''headers'' = PDict hs \<and>
      map_of hs (KStr ''Authorization'') = Some (PStr s)"
  then have "unauthorized (secret_key srv) (dict_get request ''headers'') = Inr False"
    by (simp add: key unauthorized_Some)
  then show "multicast_message srv (Text (PDict request)) =
      ([Sent (PDict [(KStr ''message'', PStr ''Connection success''),
                     (KStr ''port'', PInt (port srv)),
                     (KStr ''code'', PInt 200)])], Continue)"
    by (simp add: multicast_message_def)
next
  assume bad: "\<not> py_truthy (dict_get request ''headers'') \<or>
      (\<exists>hs. dict_get request ''headers'' = PDict hs \<and>
            map_of hs (KStr ''Authorization'') \<noteq> Some (PStr s))"
  then have "\<exists>b. unauthorized (secret_key srv) (dict_get request ''headers'') = Inr b"
    by (auto simp: unauthorized_def)
  moreover from bad unauthorized_Some [of s "dict_get request ''headers''"]
  have "unauthorized (secret_key srv) (dict_get request ''headers'') \<noteq> Inr False"
    by (auto simp: key)
  ultimately have "unauthorized (secret_key srv) (dict_get request ''headers'') = Inr True"
    by auto
  then have "multicast_message srv (Text (PDict request)) =
      ([Sent (PDict [(KStr ''error'', PStr ''Invalid or no token provided.''),
                     (KStr ''code'', PInt 403)])], Continue)"
    by (simp add: multicast_message_def error_dict_def)
  then show "\<exists>text. multicast_message srv (Text (PDict request)) =
      ([Sent (PDict [(KStr ''error'', PStr text), (KStr ''code'', PInt 403)])], Continue) \<and>
      map_of [(KStr ''error'', PStr text), (KStr ''code'', PInt 403)] (KStr ''port'') = None"
    by simp
qed

theorem C7_discovery_response_witness:
  "multicast_message example_server (Text (PDict [(KStr ''headers'', PDict (token ''s3cr3t''))])) =
     ([Sent (PDict [(KStr ''message'', PStr ''Connection success''),
                    (KStr ''port'', PInt 1010),
                    (KStr ''code'', PInt 200)])], Continue) \<and>
   (\<exists>text. multicast_message example_server
        (Text (PDict [(KStr ''headers'', PDict (token ''guess''))])) =
      ([Sent (PDict [(KStr ''error'', PStr text), (KStr ''code'', PInt 403)])], Continue) \<and>
      map_of [(KStr ''error'', PStr text), (KStr ''code'', PInt 403)] (KStr ''port'') = None)"
proof -
  have key: "secret_key example_server = Some ''s3cr3t''"
    by (simp add: example_server_def Server_route_def Server_init_def)
  have good: "\<exists>hs. dict_get [(KStr ''headers'', PDict (token ''s3cr3t''))] ''headers'' = PDict hs \<and>
      map_of hs (KStr ''Authorization'') = Some (PStr ''s3cr3t'')"
    by (simp add: dict_get_def token_def)
  have bad: "\<not> py_truthy (dict_get [(KStr ''headers'', PDict (token ''guess''))] ''headers'') \<or>
      (\<exists>hs. dict_get [(KStr ''headers'', PDict (token ''guess''))] ''headers'' = PDict hs \<and>
            map_of hs (KStr ''Authorization'') \<noteq> Some (PStr ''s3cr3t''))"
    by (simp add: dict_get_def token_def)
  have p: "port example_server = 1010"
    by (simp add: example_server_def Server_route_def Server_init_def)
  from C7_discovery_response [OF key, of "[(KStr ''headers'', PDict (token ''s3cr3t''))]"] good
  have 1: "multicast_message example_server
      (Text (PDict [(KStr ''headers'', PDict (token ''s3cr3t''))])) =
     ([Sent (PDict [(KStr ''message'', PStr ''Connection success''),
                    (KStr ''port'', PInt (port example_server)),
                    (KStr ''code'', PInt 200)])], Continue)"
    by blast
  from C7_discovery_response [OF key, of "[(KStr ''headers'', PDict (token ''guess''))]"] bad
  have 2: "\<exists>text. multicast_message example_server
        (Text (PDict [(KStr ''headers'', PDict (token ''guess''))])) =
      ([Sent (PDict [(KStr ''error'', PStr text), (KStr ''code'', PInt 403)])], Continue) \<and>
      map_of [(KStr ''error'', PStr text), (KStr ''code'', PInt 403)] (KStr ''port'') = None"
    by blast
  from 1 2 p show ?thesis by simp
qed

text \<open>
  C7 as stated fails on a server built with the constructor's defaults, where
  \<^verbatim>\<open>secret_key\<close> is \<^verbatim>\<open>None\<close>: a probe whose headers lack \<^verbatim>\<open>Authorization\<close> is told the
  port. And a probe whose headers are a string gets no response at all: the test raises
  \<^verbatim>\<open>AttributeError\<close>, which ends the loop.
\<close>

theorem C7_counterexample:
  "secret_key default_server = None \<and>
   map_of [(KStr ''x'', PStr ''y'')] (KStr ''Authorization'') = None \<and>
   multicast_message default_server
       (Text (PDict [(KStr ''headers'', PDict [(KStr ''x'', PStr ''y'')])])) =
     ([Sent (PDict [(KStr ''message'', PStr ''Connection success''),
                    (KStr ''port'', PInt 1010),
                    (KStr ''code'', PInt 200)])], Continue) \<and>
   multicast_message example_server (Text (PDict [(KStr ''headers'', PStr ''s3cr3t'')])) =
     ([], Abort AttributeError)"
  by (simp add: run_defs)

text \<open>
  C8, as amended. On the primary listener each of the four failures raises \<^verbatim>\<open>ipc_error\<close>
  with the endpoint of the request: the failed authorization test, the invalid endpoint,
  the exception of the route, and the returned mapping on which, once the code default
  is applied, the encoder fails first at a value it cannot serialize. The
  discovery listener raises no \<^verbatim>\<open>ipc_error\<close> at all, whatever the message.
\<close>

theorem C8_primary_failures_raise_ipc_error:
  "(unauthorized (secret_key srv) (dict_get request ''headers'') = Inr True \<longrightarrow>
      Ipc_error (dict_get request ''endpoint'') unauthorized_error \<in>
        set (fst (handle_message srv (Text (PDict request))))) \<and>
   (unauthorized (secret_key srv) (dict_get request ''headers'') = Inr False \<and>
    (\<not> py_truthy (dict_get request ''endpoint'') \<or>
     find_endpoint (endpoints srv) (dict_get request ''endpoint'') = Inr None) \<longrightarrow>
      Ipc_error (dict_get request ''endpoint'') invalid_text \<in>
        set (fst (handle_message srv (Text (PDict request))))) \<and>
   (Invoked f args \<in> set (fst (handle_message srv (Text (PDict request)))) \<and>
    func_call f args = Raises text \<longrightarrow>
      Ipc_error (dict_get request ''endpoint'') text \<in>
        set (fst (handle_message srv (Text (PDict request))))) \<and>
   (Invoked f args \<in> set (fst (handle_message srv (Text (PDict request)))) \<and>
    func_call f args = Returns (PDict ret) \<and>
    json_dumps (PDict (default_code ret)) = Some (TypeError (not_serializable T)) \<longrightarrow>
      Ipc_error (dict_get request ''endpoint'') error_response \<in>
        set (fst (handle_message srv (Text (PDict request))))) \<and>
   (\<forall>e t. Ipc_error e t \<notin> set (fst (multicast_message srv message)))"
proof (intro conjI impI allI)
  assume "unauthorized (secret_key srv) (dict_get request ''headers'') = Inr True"
  then show "Ipc_error (dict_get request ''endpoint'') unauthorized_error \<in>
      set (fst (handle_message srv (Text (PDict request))))"
    by (simp add: handle_message_unauthorized)
next
  assume "unauthorized (secret_key srv) (dict_get request ''headers'') = Inr False \<and>
    (\<not> py_truthy (dict_get request ''endpoint'') \<or>
     find_endpoint (endpoints srv) (dict_get request ''endpoint'') = Inr None)"
  then show "Ipc_error (dict_get request ''endpoint'') invalid_text \<in>
      set (fst (handle_message srv (Text (PDict request))))"
    by (simp add: handle_message_invalid)
next
  assume "Invoked f args \<in> set (fst (handle_message srv (Text (PDict request)))) \<and>
    func_call f args = Raises text"
  then have "handle_message srv (Text (PDict request)) =
      ([Invoked f args, Ipc_error (dict_get request ''endpoint'') text,
        Sent (error_dict text 500)], Continue)"
    by (blast intro: handle_message_Raises)
  then show "Ipc_error (dict_get request ''endpoint'') text \<in>
      set (fst (handle_message srv (Text (PDict request))))"
    by simp
next
  assume "Invoked f args \<in> set (fst (handle_message srv (Text (PDict request)))) \<and>
    func_call f args = Returns (PDict ret) \<and>
    json_dumps (PDict (default_code ret)) = Some (TypeError (not_serializable T))"
  then have "handle_message srv (Text (PDict request)) =
      ([Invoked f args, Ipc_error (dict_get request ''endpoint'') error_response,
        Sent (error_dict error_response 500)], Abort (JSONEncodeError error_response))"
    by (blast intro: handle_message_unserializable)
  then show "Ipc_error (dict_get request ''endpoint'') error_response \<in>
      set (fst (handle_message srv (Text (PDict request))))"
    by simp
next
  fix e t
  show "Ipc_error e t \<notin> set (fst (multicast_message srv message))"
    by (rule multicast_message_no_event)
qed

theorem C8_primary_failures_raise_ipc_error_witness:
  "Ipc_error (PStr ''ping'') unauthorized_error \<in>
     set (fst (handle_message example_server (Text (PDict (request_to ''ping'' (token ''guess'')))))) \<and>
   Ipc_error (PStr ''nope'') invalid_text \<in>
     set (fst (handle_message example_server (Text (PDict (request_to ''nope'' (token ''s3cr3t'')))))) \<and>
   Ipc_error (PStr ''boom'') ''boom'' \<in>
     set (fst (handle_message example_server (Text (PDict (request_to ''boom'' (token ''s3cr3t'')))))) \<and>
   Ipc_error (PStr ''member'') error_response \<in>
     set (fst (handle_message example_server
       (Text (PDict (request_to ''member'' (token ''s3cr3t''))))))"
proof -
  have a: "unauthorized (secret_key example_server)
      (dict_get (request_to ''ping'' (token ''guess'')) ''headers'') = Inr True"
    by (simp add: run_defs)
  have b: "unauthorized (secret_key example_server)
      (dict_get (request_to ''nope'' (token ''s3cr3t'')) ''headers'') = Inr False \<and>
    (\<not> py_truthy (dict_get (request_to ''nope'' (token ''s3cr3t'')) ''endpoint'') \<or>
     find_endpoint (endpoints example_server)
       (dict_get (request_to ''nope'' (token ''s3cr3t'')) ''endpoint'') = Inr None)"
    by (simp add: run_defs)
  have c: "Invoked boom_route [AReq (view_of ''boom'' (token ''s3cr3t''))] \<in>
      set (fst (handle_message example_server
        (Text (PDict (request_to ''boom'' (token ''s3cr3t'')))))) \<and>
    func_call boom_route [AReq (view_of ''boom'' (token ''s3cr3t''))] = Raises ''boom''"
    by (simp add: example_boom) (simp add: boom_route_def)
  have d: "Invoked member_route [AReq (view_of ''member'' (token ''s3cr3t''))] \<in>
      set (fst (handle_message example_server
        (Text (PDict (request_to ''member'' (token ''s3cr3t'')))))) \<and>
    func_call member_route [AReq (view_of ''member'' (token ''s3cr3t''))] =
      Returns (PDict [(KStr ''member'', PObj ''Member'' True)]) \<and>
    json_dumps (PDict (default_code [(KStr ''member'', PObj ''Member'' True)])) =
      Some (TypeError (not_serializable ''Member''))"
    by (simp add: example_member) (simp add: member_route_def default_code_def dict_get_def)
  have ep: "\<And>n h. dict_get (request_to n h) ''endpoint'' = PStr n"
    by (simp add: dict_get_def request_to_def)
  from C8_primary_failures_raise_ipc_error
      [of example_server "request_to ''ping'' (token ''guess'')"] a
  have 1: "Ipc_error (PStr ''ping'') unauthorized_error \<in>
      set (fst (handle_message example_server
        (Text (PDict (request_to ''ping'' (token ''guess''))))))"
    by (simp add: ep)
  from C8_primary_failures_raise_ipc_error
      [of example_server "request_to ''nope'' (token ''s3cr3t'')"] b
  have 2: "Ipc_error (PStr ''nope'') invalid_text \<in>
      set (fst (handle_message example_server
        (Text (PDict (request_to ''nope'' (token ''s3cr3t''))))))"
    by (simp add: ep)
  from C8_primary_failures_raise_ipc_error
      [of example_server "request_to ''boom'' (token ''s3cr3t'')" boom_route
          "[AReq (view_of ''boom'' (token ''s3cr3t''))]" "''boom''"] c
  have 3: "Ipc_error (PStr ''boom'') ''boom'' \<in>
      set (fst (handle_message example_server
        (Text (PDict (request_to ''boom'' (token ''s3cr3t''))))))"
    by (simp add: ep)
  from C8_primary_failures_raise_ipc_error
      [of example_server "request_to ''member'' (token ''s3cr3t'')" member_route
          "[AReq (view_of ''member'' (token ''s3cr3t''))]" _
          "[(KStr ''member'', PObj ''Member'' True)]" "''Member''"] d
  have 4: "Ipc_error (PStr ''member'') error_response \<in>
      set (fst (handle_message example_server
        (Text (PDict (request_to ''member'' (token ''s3cr3t''))))))"
    by (simp add: ep)
  from 1 2 3 4 show ?thesis by blast
qed

text \<open>
  C8 as stated fails on the discovery listener: a probe with a wrong token is answered
  with the 403 response and no \<^verbatim>\<open>ipc_error\<close> is raised.
\<close>

theorem C8_counterexample:
  "multicast_message example_server
       (Text (PDict [(KStr ''headers'', PDict (token ''guess''))])) =
     ([Sent (PDict [(KStr ''error'', PStr ''Invalid or no token provided.''),
                    (KStr ''code'', PInt 403)])], Continue) \<and>
   (\<forall>e t. Ipc_error e t \<notin>
      set (fst (multicast_message example_server
        (Text (PDict [(KStr ''headers'', PDict (token ''guess''))])))))"
  by (simp add: run_defs)

text \<open>
  C10, as amended. \<^verbatim>\<open>destroy\<close> releases in sequence what the server holds: it cleans up
  the runner in \<^verbatim>\<open>_runner\<close> and, only when that raised nothing, stops the site in
  \<^verbatim>\<open>_webserver\<close>. An exception of the cleanup leaves \<^verbatim>\<open>destroy\<close> before the stop is
  attempted; an exception of the stop comes after the cleanup has been done.
\<close>

theorem C10_destroy_in_sequence:
  assumes "priv_runner srv = Some r"
  shows
    "(runner_cleanup r = Some e \<longrightarrow> destroy srv = ([Runner_cleanup r], Inl e)) \<and>
     (runner_cleanup r = None \<and> priv_webserver srv = Some w \<longrightarrow>
        destroy srv =
          ([Runner_cleanup r, Site_stop w],
           (case site_stop w of None \<Rightarrow> Inr () | Some e' \<Rightarrow> Inl e')))"
  using assms by (simp add: destroy_def split: option.splits)

theorem C10_destroy_in_sequence_witness:
  "destroy (started failing_lib) =
     ([Runner_cleanup (AppRunner failing_lib (Application ''handle_accept''))],
      Inl (OSError ''cleanup failed'')) \<and>
   destroy (started good_lib) =
     ([Runner_cleanup (AppRunner good_lib (Application ''handle_accept'')),
       Site_stop (TCPSite good_lib (AppRunner good_lib (Application ''handle_accept''))
         ''127.0.0.1'' 1010)], Inr ())"
proof -
  have f: "runner_cleanup (AppRunner failing_lib (Application ''handle_accept'')) =
      Some (OSError ''cleanup failed'')"
    by (simp add: failing_lib_def)
  have g: "runner_cleanup (AppRunner good_lib (Application ''handle_accept'')) = None \<and>
      priv_webserver (started good_lib) =
        Some (TCPSite good_lib (AppRunner good_lib (Application ''handle_accept''))
          ''127.0.0.1'' 1010)"
    by (simp add: started_good) (simp add: good_lib_def)
  have s: "site_stop (TCPSite good_lib (AppRunner good_lib (Application ''handle_accept''))
      ''127.0.0.1'' 1010) = None"
    by (simp add: good_lib_def)
  from started_failing have rf: "priv_runner (started failing_lib) =
      Some (AppRunner failing_lib (Application ''handle_accept''))" by simp
  from started_good have rg: "priv_runner (started good_lib) =
      Some (AppRunner good_lib (Application ''handle_accept''))" by simp
  from C10_destroy_in_sequence [OF rf, of "OSError ''cleanup failed''"] f
  have 1: "destroy (started failing_lib) =
     ([Runner_cleanup (AppRunner failing_lib (Application ''handle_accept''))],
      Inl (OSError ''cleanup failed''))"
    by blast
  from C10_destroy_in_sequence [OF rg, of _
      "TCPSite good_lib (AppRunner good_lib (Application ''handle_accept'')) ''127.0.0.1'' 1010"] g
  have "destroy (started good_lib) =
     ([Runner_cleanup (AppRunner good_lib (Application ''handle_accept'')),
       Site_stop (TCPSite good_lib (AppRunner good_lib (Application ''handle_accept''))
         ''127.0.0.1'' 1010)],
      (case site_stop (TCPSite good_lib (AppRunner good_lib (Application ''handle_accept''))
         ''127.0.0.1'' 1010) of None \<Rightarrow> Inr () | Some e' \<Rightarrow> Inl e'))"
    by blast
  with s 1 show ?thesis by simp
qed

text \<open>
  C10 as stated fails. After \<^verbatim>\<open>start()\<close> with the discovery listener enabled and both
  \<^verbatim>\<open>setup\<close> tasks run, the cleanup of the runner raises: \<^verbatim>\<open>destroy\<close> ends there, the site
  the server holds is never stopped, and no resource of the discovery listener is
  touched.
\<close>

theorem C10_counterexample:
  "do_multicast example_server \<and>
   priv_webserver (started failing_lib) =
     Some (TCPSite failing_lib (AppRunner failing_lib (Application ''handle_accept''))
            ''127.0.0.1'' 1010) \<and>
   destroy (started failing_lib) =
     ([Runner_cleanup (AppRunner failing_lib (Application ''handle_accept''))],
      Inl (OSError ''cleanup failed''))"
  by (simp add: destroy_def started_failing)
     (simp add: failing_lib_def example_server_def Server_route_def Server_init_def)

end
